theory Spec2Isabelle
  imports Complex_Main "HOL-Library.Word"
begin

section \<open>Driver for the ATI force/torque sensor: a shallow embedding\<close>

text \<open>
  The embedding follows \<^verbatim>\<open>ati_ft_sensor_tcp.py\<close>, class \<^verbatim>\<open>ATIForceTorqueSensor\<close>.
  Logging and the \<^verbatim>\<open>perf_counter_ns\<close> timing have no effect on results and are left out.
  The socket is the environment: what \<^verbatim>\<open>sendall\<close> and \<^verbatim>\<open>recv\<close> do is an input of each
  operation, and every call made on the socket is appended to a trace kept in the state.
  A method returns its result (an exception as \<open>Inl\<close>) together with the object's state
  after the call, so that the state left behind by a raised exception can be read.
\<close>

subsection \<open>Constants\<close>

type_synonym byte = "8 word"

definition BUFFER_SIZE :: nat where
  "BUFFER_SIZE = 1024"

definition MESSAGE_LENGTH :: nat where
  "MESSAGE_LENGTH = 20"

definition HEADER_LENGTH :: nat where
  "HEADER_LENGTH = 2"

subsection \<open>Python values and exceptions\<close>

text \<open>
  \<open>CalibrationNotConnected\<close> and \<open>CalibrationTimeout\<close> are the two \<^verbatim>\<open>Exception(...)\<close>
  objects raised by \<^verbatim>\<open>get_calibration_info\<close> (lines 64 and 100), told apart by their
  message; \<open>SocketTimeout\<close> is \<^verbatim>\<open>socket.timeout\<close>; \<open>OSError\<close> stands for any other
  failure of the transport. The others are the built-in exceptions of the interpreter.
\<close>

datatype error =
    CalibrationNotConnected
  | CalibrationTimeout
  | SocketTimeout
  | OSError
  | IndexError
  | TypeError
  | ZeroDivisionError
  | AttributeError

text \<open>
  Floating-point numbers are kept abstract: \<open>'f\<close> is the type of Python floats and the
  three operations the driver uses on them are parameters. \<open>truediv ops n d\<close> is the
  float \<^verbatim>\<open>n / d\<close> of two integers with \<open>d\<close> nonzero (the zero divisor is handled in
  \<open>py_truediv\<close>), \<open>fsub\<close> is float subtraction and \<open>float_of_int\<close> the promotion of an
  integer operand. Every theorem holds for all such operations.
\<close>

record 'f float_ops =
  truediv :: "int \<Rightarrow> int \<Rightarrow> 'f"
  fsub :: "'f \<Rightarrow> 'f \<Rightarrow> 'f"
  float_of_int :: "int \<Rightarrow> 'f"

text \<open>An element of a bias or result list: an \<^verbatim>\<open>int\<close> (the initial zeros) or a \<^verbatim>\<open>float\<close>.\<close>

datatype 'f pynum = PyInt int | PyFloat 'f

definition py_truediv :: "'f float_ops \<Rightarrow> int \<Rightarrow> int option \<Rightarrow> error + 'f" where
  \<comment> \<open>\<^verbatim>\<open>n / d\<close> where \<open>d\<close> may still be \<^verbatim>\<open>None\<close> (before calibration).\<close>
  "py_truediv ops n d =
     (case d of
        None \<Rightarrow> Inl TypeError
      | Some k \<Rightarrow> if k = 0 then Inl ZeroDivisionError else Inr (truediv ops n k))"

definition py_sub :: "'f float_ops \<Rightarrow> 'f \<Rightarrow> 'f pynum \<Rightarrow> 'f" where
  \<comment> \<open>\<^verbatim>\<open>x - b\<close> for a float \<open>x\<close>.\<close>
  "py_sub ops x b =
     (case b of
        PyInt n \<Rightarrow> fsub ops x (float_of_int ops n)
      | PyFloat y \<Rightarrow> fsub ops x y)"

definition py_index :: "'a list \<Rightarrow> nat \<Rightarrow> error + 'a" where
  \<comment> \<open>\<^verbatim>\<open>xs[i]\<close> for a non-negative index.\<close>
  "py_index xs i = (if i < length xs then Inr (xs ! i) else Inl IndexError)"

definition py_slice :: "'a list \<Rightarrow> nat \<Rightarrow> nat \<Rightarrow> 'a list" where
  \<comment> \<open>\<^verbatim>\<open>xs[a:b]\<close> for non-negative bounds: never raises, cut at the end of the list.\<close>
  "py_slice xs a b = take (b - a) (drop a xs)"

definition from_bytes_unsigned :: "byte list \<Rightarrow> int" where
  "from_bytes_unsigned bs = foldl (\<lambda>acc b. acc * 256 + uint b) 0 bs"

definition int_from_bytes_signed :: "byte list \<Rightarrow> int" where
  \<comment> \<open>\<^verbatim>\<open>int.from_bytes(bs, signed=True)\<close>, byte order \<^verbatim>\<open>'big'\<close> by default; 0 on no bytes.\<close>
  "int_from_bytes_signed bs =
     (let n = from_bytes_unsigned bs
      in if bs \<noteq> [] \<and> 2 ^ (8 * length bs - 1) \<le> n then n - 2 ^ (8 * length bs) else n)"

subsection \<open>The socket and the object's state\<close>

datatype sock_call = Connect | SetTimeout | SendAll "byte list" | Recv nat | Close

datatype call_result = CallOk | CallRaises error

datatype recv_result = RecvData "byte list" | RecvRaises error

record 'f sensor =
  connected :: bool
  F_bias :: "'f pynum list"
  T_bias :: "'f pynum list"
  scaling_factors_F :: "int list"
  scaling_factors_T :: "int list"
  force_units :: "int option"
  torque_units :: "int option"
  counts_per_force :: "int option"
  counts_per_torque :: "int option"
  sock_calls :: "sock_call list"

definition sock_call :: "sock_call \<Rightarrow> 'f sensor \<Rightarrow> 'f sensor" where
  "sock_call c st = st\<lparr>sock_calls := sock_calls st @ [c]\<rparr>"

definition init :: "'f sensor" where
  "init = \<lparr>connected = False,
           F_bias = [PyInt 0, PyInt 0, PyInt 0],
           T_bias = [PyInt 0, PyInt 0, PyInt 0],
           scaling_factors_F = [],
           scaling_factors_T = [],
           force_units = None,
           torque_units = None,
           counts_per_force = None,
           counts_per_torque = None,
           sock_calls = []\<rparr>"

definition exit_sensor :: "'f sensor \<Rightarrow> 'f sensor" where
  "exit_sensor st = (if connected st then sock_call Close st else st)"

definition construct_command :: "byte list \<Rightarrow> byte list" where
  \<comment> \<open>the argument is \<^verbatim>\<open>bytes.fromhex(command_code)\<close>\<close>
  "construct_command command = command @ replicate (MESSAGE_LENGTH - length command) 0"

subsection \<open>Calibration\<close>

fun scaling_loop :: "byte list \<Rightarrow> nat list \<Rightarrow> int list \<Rightarrow> int list" where
  "scaling_loop response_data [] scaling_factors = scaling_factors"
| "scaling_loop response_data (i # is) scaling_factors =
     (let factor = int_from_bytes_signed (py_slice response_data (12 + i * 2) (12 + i * 2 + 2))
      in scaling_loop response_data is (scaling_factors @ [factor]))"

type_synonym calibration = "int \<times> int \<times> int \<times> int \<times> int list \<times> int list"

definition parse_calibration :: "byte list \<Rightarrow> error + calibration" where
  \<comment> \<open>lines 77 to 96, the body of the \<^verbatim>\<open>try\<close> after \<^verbatim>\<open>recv\<close>\<close>
  "parse_calibration response_data =
     (case py_index response_data HEADER_LENGTH of
        Inl e \<Rightarrow> Inl e
      | Inr fu \<Rightarrow>
     (case py_index response_data (HEADER_LENGTH + 1) of
        Inl e \<Rightarrow> Inl e
      | Inr tu \<Rightarrow>
     (let cpf = int_from_bytes_signed
            (py_slice response_data (HEADER_LENGTH + 2) (HEADER_LENGTH + 2 + 4));
          cpt = int_from_bytes_signed
            (py_slice response_data (HEADER_LENGTH + 2 + 4) (HEADER_LENGTH + 2 + 4 + 4));
          scaling_factors = scaling_loop response_data [0..<6] []
      in Inr (uint fu, uint tu, cpf, cpt,
              py_slice scaling_factors 0 3, py_slice scaling_factors 3 6))))"

definition get_calibration_info ::
  "call_result \<Rightarrow> recv_result \<Rightarrow> 'f sensor \<Rightarrow> (error + calibration) \<times> 'f sensor" where
  "get_calibration_info send recv st =
     (if \<not> connected st then (Inl CalibrationNotConnected, sock_call Close st)
      else
        let message = construct_command [1];
            st1 = sock_call (SendAll message) st
        in (case send of
             CallRaises e \<Rightarrow> (Inl e, st1)
           | CallOk \<Rightarrow>
              (let st2 = sock_call (Recv BUFFER_SIZE) st1
               in (case recv of
                     RecvRaises e \<Rightarrow>
                      (if e = SocketTimeout
                       then (Inl CalibrationTimeout, sock_call Close st2)
                       else (Inl e, st2))
                   | RecvData d \<Rightarrow> (parse_calibration (take BUFFER_SIZE d), st2)))))"

definition enter ::
  "call_result \<Rightarrow> call_result \<Rightarrow> recv_result \<Rightarrow> 'f sensor \<Rightarrow> (error + unit) \<times> 'f sensor" where
  \<comment> \<open>\<^verbatim>\<open>__enter__\<close>: connect, then read the calibration into the object\<close>
  "enter conn send recv st =
     (let st0 = sock_call Connect st
      in (case conn of
           CallRaises e \<Rightarrow> (Inl e, st0)
         | CallOk \<Rightarrow>
            (let st1 = (sock_call SetTimeout st0)\<lparr>connected := True\<rparr>
             in (case get_calibration_info send recv st1 of
                   (Inl e, st2) \<Rightarrow> (Inl e, st2)
                 | (Inr (fu, tu, cpf, cpt, sf, stq), st2) \<Rightarrow>
                     (Inr (), st2\<lparr>force_units := Some fu, torque_units := Some tu,
                                  counts_per_force := Some cpf, counts_per_torque := Some cpt,
                                  scaling_factors_F := sf, scaling_factors_T := stq\<rparr>)))))"

subsection \<open>Reading a sample\<close>

text \<open>
  The two \<^verbatim>\<open>for\<close> loops of \<^verbatim>\<open>get_data\<close> (lines 142 to 147 and 155 to 160) have the same body,
  on different fields: \<open>axis_loop\<close> is that body, with the byte offset, the scaling
  factors, the divisor and the bias list as arguments. \<open>V\<close> is the list being filled
  (\<^verbatim>\<open>F\<close> or \<^verbatim>\<open>T\<close>) and the index list is \<^verbatim>\<open>range(len(V))\<close>.
\<close>

fun axis_loop ::
  "'f float_ops \<Rightarrow> bool \<Rightarrow> byte list \<Rightarrow> nat \<Rightarrow> int list \<Rightarrow> int option \<Rightarrow> 'f pynum list \<Rightarrow>
   nat list \<Rightarrow> 'f pynum list \<Rightarrow> error + 'f pynum list" where
  "axis_loop ops raw data off sf cpu bias [] V = Inr V"
| "axis_loop ops raw data off sf cpu bias (i # is) V =
     (let raw_value = int_from_bytes_signed (py_slice data (off + i * 2) (off + i * 2 + 2))
      in case py_index sf i of
           Inl e \<Rightarrow> Inl e
         | Inr s \<Rightarrow>
        (case py_truediv ops (raw_value * s) cpu of
           Inl e \<Rightarrow> Inl e
         | Inr v \<Rightarrow>
             if raw then axis_loop ops raw data off sf cpu bias is (V[i := PyFloat v])
             else (case py_index bias i of
                     Inl e \<Rightarrow> Inl e
                   | Inr b \<Rightarrow>
                       axis_loop ops raw data off sf cpu bias is
                         (V[i := PyFloat (py_sub ops v b)]))))"

text \<open>
  The element that one pass of the loop body leaves in \<open>V[i]\<close> when nothing is raised
  (lines 144 to 147 and 157 to 160), for a divisor \<open>d\<close>.
\<close>

definition axis_value ::
  "'f float_ops \<Rightarrow> bool \<Rightarrow> byte list \<Rightarrow> nat \<Rightarrow> int list \<Rightarrow> int \<Rightarrow> 'f pynum list \<Rightarrow>
   nat \<Rightarrow> 'f pynum" where
  "axis_value ops raw data off sf d bias i =
     (let raw_value = int_from_bytes_signed (py_slice data (off + i * 2) (off + i * 2 + 2));
          v = truediv ops (raw_value * sf ! i) d
      in PyFloat (if raw then v else py_sub ops v (bias ! i)))"

definition decode_sample ::
  "'f float_ops \<Rightarrow> bool \<Rightarrow> byte list \<Rightarrow> 'f sensor \<Rightarrow>
   error + ('f pynum list option \<times> 'f pynum list option)" where
  \<comment> \<open>lines 141 to 167, the body of the \<^verbatim>\<open>try\<close> after \<^verbatim>\<open>recv\<close>\<close>
  "decode_sample ops raw data st =
     (let F = [PyInt 0, PyInt 0, PyInt 0];
          T = [PyInt 0, PyInt 0, PyInt 0]
      in case axis_loop ops raw data 4 (scaling_factors_F st) (counts_per_force st)
                (F_bias st) [0..<length F] F of
           Inl e \<Rightarrow> Inl e
         | Inr F' \<Rightarrow>
        (case axis_loop ops raw data 10 (scaling_factors_T st) (counts_per_torque st)
                (T_bias st) [0..<length T] T of
           Inl e \<Rightarrow> Inl e
         | Inr T' \<Rightarrow> Inr (Some F', Some T')))"

definition get_data ::
  "'f float_ops \<Rightarrow> bool \<Rightarrow> call_result \<Rightarrow> recv_result \<Rightarrow> 'f sensor \<Rightarrow>
   (error + ('f pynum list option \<times> 'f pynum list option)) \<times> 'f sensor" where
  "get_data ops raw send recv st =
     (if \<not> connected st then (Inr (None, None), st)
      else
        let message = construct_command [0];
            st1 = sock_call (SendAll message) st
        in (case send of
             CallRaises e \<Rightarrow> (Inl e, st1)
           | CallOk \<Rightarrow>
              (let st2 = sock_call (Recv BUFFER_SIZE) st1
               in (case recv of
                     RecvRaises e \<Rightarrow>
                      (if e = SocketTimeout then (Inr (None, None), st2) else (Inl e, st2))
                   | RecvData d \<Rightarrow> (decode_sample ops raw (take BUFFER_SIZE d) st, st2)))))"

subsection \<open>Zeroing\<close>

definition zero_sensor ::
  "'f float_ops \<Rightarrow> call_result \<Rightarrow> recv_result \<Rightarrow> 'f sensor \<Rightarrow> (error + unit) \<times> 'f sensor" where
  \<comment> \<open>\<^verbatim>\<open>F.copy()\<close> on \<^verbatim>\<open>None\<close> raises AttributeError, before the assignment\<close>
  "zero_sensor ops send recv st =
     (case get_data ops True send recv st of
        (Inl e, st1) \<Rightarrow> (Inl e, st1)
      | (Inr (F, T), st1) \<Rightarrow>
          (case F of
             None \<Rightarrow> (Inl AttributeError, st1)
           | Some f \<Rightarrow>
               let st2 = st1\<lparr>F_bias := f\<rparr>
               in (case T of
                     None \<Rightarrow> (Inl AttributeError, st2)
                   | Some t \<Rightarrow> (Inr (), st2\<lparr>T_bias := t\<rparr>))))"

subsection \<open>Fixtures\<close>

text \<open>
  An instance of the float operations on the rationals, without rounding, at which the
  statements below are evaluated on concrete frames. The examples use quotients that a
  binary float represents exactly (1, 1/4, 0).
\<close>

definition exact_ops :: "rat float_ops" where
  "exact_ops = \<lparr>truediv = (\<lambda>n d. of_int n / of_int d), fsub = (\<lambda>x y. x - y),
                 float_of_int = of_int\<rparr>"

definition example_calibration_frame :: "byte list" where
  "example_calibration_frame =
     [0x00, 0x00, 0x01, 0x02, 0x00, 0x00, 0x03, 0xE8, 0x00, 0x00, 0x03, 0xE8,
      0x00, 0x0A, 0x00, 0x0A, 0x00, 0x0A, 0x00, 0x05, 0x00, 0x05, 0x00, 0x05]"

definition example_sample_frame :: "byte list" where
  "example_sample_frame =
     [0x00, 0x00, 0x00, 0x00, 0x00, 0x64, 0x00, 0x64, 0x00, 0x64,
      0x00, 0x32, 0x00, 0x32, 0x00, 0x32]"

definition fresh_connected :: "rat sensor" where
  \<comment> \<open>the object after \<^verbatim>\<open>connect\<close> and before the calibration is stored\<close>
  "fresh_connected = init\<lparr>connected := True, sock_calls := [Connect, SetTimeout]\<rparr>"

definition example_sensor :: "rat sensor" where
  \<comment> \<open>a connected object holding the calibration of \<open>example_calibration_frame\<close>\<close>
  "example_sensor =
     fresh_connected\<lparr>scaling_factors_F := [10, 10, 10], scaling_factors_T := [5, 5, 5],
                     force_units := Some 1, torque_units := Some 2,
                     counts_per_force := Some 1000, counts_per_torque := Some 1000\<rparr>"

text \<open>
  A second instance, on a type that has the special values of a binary float: two
  infinities and NaN beside the finite values (kept as rationals). Subtracting an
  infinity or NaN from itself gives NaN, so here subtraction of a value from itself is
  not always zero, while a quotient of integers is always finite.
\<close>

datatype efloat = Finite rat | PosInf | NegInf | NaN

fun efloat_sub :: "efloat \<Rightarrow> efloat \<Rightarrow> efloat" where
  "efloat_sub (Finite a) (Finite b) = Finite (a - b)"
| "efloat_sub NaN y = NaN"
| "efloat_sub x NaN = NaN"
| "efloat_sub PosInf PosInf = NaN"
| "efloat_sub NegInf NegInf = NaN"
| "efloat_sub PosInf y = PosInf"
| "efloat_sub NegInf y = NegInf"
| "efloat_sub (Finite a) PosInf = NegInf"
| "efloat_sub (Finite a) NegInf = PosInf"

definition extended_ops :: "efloat float_ops" where
  "extended_ops = \<lparr>truediv = (\<lambda>n d. Finite (of_int n / of_int d)), fsub = efloat_sub,
                    float_of_int = (\<lambda>n. Finite (of_int n))\<rparr>"

definition extended_sensor :: "efloat sensor" where
  \<comment> \<open>\<open>example_sensor\<close> on the second instance\<close>
  "extended_sensor =
     init\<lparr>connected := True, sock_calls := [Connect, SetTimeout],
          scaling_factors_F := [10, 10, 10], scaling_factors_T := [5, 5, 5],
          force_units := Some 1, torque_units := Some 2,
          counts_per_force := Some 1000, counts_per_torque := Some 1000\<rparr>"

section \<open>Decoding big-endian fields\<close>

lemma byte_bounds: "0 \<le> uint (a::byte)" "uint (a::byte) < 256"
  using uint_lt2p [of a] by simp_all

lemma shift_mod_high:
  fixes n m :: int
  assumes "m \<le> n" "n < 2 * m"
  shows "(n + m) mod (2 * m) = n - m"
proof -
  have "(n + m) mod (2 * m) = (n - m + 2 * m) mod (2 * m)" by (simp add: algebra_simps)
  also have "\<dots> = (n - m) mod (2 * m)" by (simp only: mod_add_self2)
  also have "\<dots> = n - m" using assms by (simp add: mod_pos_pos_trivial)
  finally show ?thesis .
qed

lemma shift_mod_low:
  fixes n m :: int
  assumes "0 \<le> n" "n < m"
  shows "(n + m) mod (2 * m) = n + m"
  using assms by (simp add: mod_pos_pos_trivial)

lemma sint_of_uint_16:
  fixes w :: "16 word"
  shows "sint w = (if 32768 \<le> uint w then uint w - 65536 else uint w)"
proof -
  have b: "0 \<le> uint w" "uint w < 2 * 32768" using uint_lt2p [of w] by simp_all
  have "sint w = (uint w + 32768) mod (2 * 32768) - 32768"
    by (simp add: sint_uint signed_take_bit_eq_take_bit_shift take_bit_eq_mod)
  then show ?thesis
    using shift_mod_high [of 32768 "uint w"] shift_mod_low [of "uint w" 32768] b
    by (simp split: if_splits)
qed

lemma sint_of_uint_32:
  fixes w :: "32 word"
  shows "sint w = (if 2147483648 \<le> uint w then uint w - 4294967296 else uint w)"
proof -
  have b: "0 \<le> uint w" "uint w < 2 * 2147483648" using uint_lt2p [of w] by simp_all
  have "sint w = (uint w + 2147483648) mod (2 * 2147483648) - 2147483648"
    by (simp add: sint_uint signed_take_bit_eq_take_bit_shift take_bit_eq_mod)
  then show ?thesis
    using shift_mod_high [of 2147483648 "uint w"] shift_mod_low [of "uint w" 2147483648] b
    by (simp split: if_splits)
qed

lemma uint_word_rcat_2:
  "uint (word_rcat [a, b :: byte] :: 16 word) = uint a * 256 + uint b"
proof -
  have n: "0 \<le> uint a * 256 + uint b" "uint a * 256 + uint b < 2 ^ 16"
    using byte_bounds [of a] byte_bounds [of b] by simp_all
  have "horner_sum uint (2 ^ LENGTH(8)) (rev [a, b]) = uint a * 256 + uint b"
    by (simp add: horner_sum_simps)
  then have "uint (word_rcat [a, b] :: 16 word) = take_bit 16 (uint a * 256 + uint b)"
    by (simp only: word_rcat_def o_def uint_word_of_int_eq) simp
  with n show ?thesis by (simp only: take_bit_int_eq_self)
qed

lemma uint_word_rcat_4:
  "uint (word_rcat [a, b, c, d :: byte] :: 32 word) =
   ((uint a * 256 + uint b) * 256 + uint c) * 256 + uint d"
proof -
  let ?n = "((uint a * 256 + uint b) * 256 + uint c) * 256 + uint d"
  have n: "0 \<le> ?n" "?n < 2 ^ 32"
    using byte_bounds [of a] byte_bounds [of b] byte_bounds [of c] byte_bounds [of d]
    by simp_all
  have "horner_sum uint (2 ^ LENGTH(8)) (rev [a, b, c, d]) = ?n"
    by (simp add: horner_sum_simps)
  then have "uint (word_rcat [a, b, c, d] :: 32 word) = take_bit 32 ?n"
    by (simp only: word_rcat_def o_def uint_word_of_int_eq) simp
  with n show ?thesis by (simp only: take_bit_int_eq_self)
qed

text \<open>
  On two bytes \<^verbatim>\<open>int.from_bytes(..., signed=True)\<close> is the two's-complement reading of
  the 16-bit word whose high byte comes first, and on four bytes that of the 32-bit word.
\<close>

lemma int_from_bytes_signed_2:
  "int_from_bytes_signed [a, b] = sint (word_rcat [a, b] :: 16 word)"
  by (simp add: int_from_bytes_signed_def from_bytes_unsigned_def sint_of_uint_16
        uint_word_rcat_2)

lemma int_from_bytes_signed_4:
  "int_from_bytes_signed [a, b, c, d] = sint (word_rcat [a, b, c, d] :: 32 word)"
  by (simp add: int_from_bytes_signed_def from_bytes_unsigned_def sint_of_uint_32
        uint_word_rcat_4)

lemma py_slice_2:
  "i + 2 \<le> length xs \<Longrightarrow> j = i + 2 \<Longrightarrow> py_slice xs i j = [xs ! i, xs ! (i + 1)]"
  unfolding py_slice_def
  by (simp add: take_Suc_conv_app_nth numeral_2_eq_2 Cons_nth_drop_Suc [symmetric])

lemma py_slice_4:
  "i + 4 \<le> length xs \<Longrightarrow> j = i + 4 \<Longrightarrow>
   py_slice xs i j = [xs ! i, xs ! (i + 1), xs ! (i + 2), xs ! (i + 3)]"
  unfolding py_slice_def
  by (simp add: take_Suc_conv_app_nth numeral_eq_Suc Cons_nth_drop_Suc [symmetric])

lemma py_slice_take:
  "b \<le> n \<Longrightarrow> py_slice (take n xs) a b = py_slice xs a b"
  unfolding py_slice_def by (simp add: drop_take min_def)

section \<open>Calibration frames\<close>

lemma upt_0_6: "[0..<6] = [0, 1, 2, 3, 4, 5]"
  by (simp add: upt_rec)

lemma upt_0_3: "[0..<3] = [0, 1, 2]"
  by (simp add: upt_rec)

lemma scaling_loop_6:
  "scaling_loop d [0..<6] [] =
     map (\<lambda>i. int_from_bytes_signed (py_slice d (12 + i * 2) (12 + i * 2 + 2))) [0, 1, 2, 3, 4, 5]"
  by (simp add: upt_0_6)

lemma parse_calibration_short: "length d < 4 \<Longrightarrow> parse_calibration d = Inl IndexError"
  by (auto simp: parse_calibration_def py_index_def HEADER_LENGTH_def)

lemma parse_calibration_fields:
  "4 \<le> length d \<Longrightarrow>
   parse_calibration d =
     Inr (uint (d ! 2), uint (d ! 3),
          int_from_bytes_signed (py_slice d 4 8),
          int_from_bytes_signed (py_slice d 8 12),
          [int_from_bytes_signed (py_slice d 12 14),
           int_from_bytes_signed (py_slice d 14 16),
           int_from_bytes_signed (py_slice d 16 18)],
          [int_from_bytes_signed (py_slice d 18 20),
           int_from_bytes_signed (py_slice d 20 22),
           int_from_bytes_signed (py_slice d 22 24)])"
  by (simp add: parse_calibration_def py_index_def HEADER_LENGTH_def scaling_loop_6
        py_slice_def [of "_ # _"])

lemma get_calibration_info_data:
  "connected st \<Longrightarrow>
   fst (get_calibration_info CallOk (RecvData d) st) = parse_calibration (take BUFFER_SIZE d)"
  by (simp add: get_calibration_info_def Let_def)

text \<open>
  Claim C2. When the object is connected and \<^verbatim>\<open>recv\<close> returns a frame of at least 24
  bytes, \<open>get_calibration_info\<close> returns the force unit code of byte 2, the torque unit
  code of byte 3, the counts per force and per torque as the signed 32-bit big-endian
  values of bytes 4 to 7 and 8 to 11, and the six scaling factors as the signed 16-bit
  big-endian values of the byte pairs from 12 to 23, forces first. A frame that begins
  with the bytes of \<open>example_calibration_frame\<close> decodes to units 1 and 2, both counts
  1000, force scaling 10, 10, 10 and torque scaling 5, 5, 5.
\<close>

theorem calibration_layout:
  assumes "connected st" and "24 \<le> length data"
  shows "fst (get_calibration_info CallOk (RecvData data) st) =
           Inr (uint (data ! 2), uint (data ! 3),
                sint (word_rcat [data ! 4, data ! 5, data ! 6, data ! 7] :: 32 word),
                sint (word_rcat [data ! 8, data ! 9, data ! 10, data ! 11] :: 32 word),
                [sint (word_rcat [data ! 12, data ! 13] :: 16 word),
                 sint (word_rcat [data ! 14, data ! 15] :: 16 word),
                 sint (word_rcat [data ! 16, data ! 17] :: 16 word)],
                [sint (word_rcat [data ! 18, data ! 19] :: 16 word),
                 sint (word_rcat [data ! 20, data ! 21] :: 16 word),
                 sint (word_rcat [data ! 22, data ! 23] :: 16 word)])
         \<and> (take 24 data = example_calibration_frame \<longrightarrow>
            fst (get_calibration_info CallOk (RecvData data) st) =
              Inr (1, 2, 1000, 1000, [10, 10, 10], [5, 5, 5]))"
proof -
  let ?d = "take BUFFER_SIZE data"
  have len: "24 \<le> length ?d" using assms(2) by (simp add: BUFFER_SIZE_def)
  have nth: "\<And>i. i < 24 \<Longrightarrow> ?d ! i = data ! i" by (simp add: BUFFER_SIZE_def)
  have s4: "py_slice ?d 4 8 = [data ! 4, data ! 5, data ! 6, data ! 7]"
           "py_slice ?d 8 12 = [data ! 8, data ! 9, data ! 10, data ! 11]"
    using len by (simp_all add: py_slice_4 nth)
  have s2: "py_slice ?d 12 14 = [data ! 12, data ! 13]"
           "py_slice ?d 14 16 = [data ! 14, data ! 15]"
           "py_slice ?d 16 18 = [data ! 16, data ! 17]"
           "py_slice ?d 18 20 = [data ! 18, data ! 19]"
           "py_slice ?d 20 22 = [data ! 20, data ! 21]"
           "py_slice ?d 22 24 = [data ! 22, data ! 23]"
    using len by (simp_all add: py_slice_2 nth)
  have fields: "fst (get_calibration_info CallOk (RecvData data) st) =
           Inr (uint (data ! 2), uint (data ! 3),
                sint (word_rcat [data ! 4, data ! 5, data ! 6, data ! 7] :: 32 word),
                sint (word_rcat [data ! 8, data ! 9, data ! 10, data ! 11] :: 32 word),
                [sint (word_rcat [data ! 12, data ! 13] :: 16 word),
                 sint (word_rcat [data ! 14, data ! 15] :: 16 word),
                 sint (word_rcat [data ! 16, data ! 17] :: 16 word)],
                [sint (word_rcat [data ! 18, data ! 19] :: 16 word),
                 sint (word_rcat [data ! 20, data ! 21] :: 16 word),
                 sint (word_rcat [data ! 22, data ! 23] :: 16 word)])"
    using len assms(1)
    by (simp only: get_calibration_info_data parse_calibration_fields s4 s2
          int_from_bytes_signed_2 int_from_bytes_signed_4) (simp add: nth)
  have "fst (get_calibration_info CallOk (RecvData data) st) =
          Inr (1, 2, 1000, 1000, [10, 10, 10], [5, 5, 5])"
    if ex: "take 24 data = example_calibration_frame"
  proof -
    have "\<And>i. i < 24 \<Longrightarrow> data ! i = example_calibration_frame ! i"
      using ex by (metis nth_take)
    then show ?thesis
      by (simp add: fields example_calibration_frame_def sint_of_uint_16 sint_of_uint_32
            uint_word_rcat_2 uint_word_rcat_4)
  qed
  with fields show ?thesis by blast
qed


theorem calibration_layout_witness:
  "connected fresh_connected \<and> 24 \<le> length example_calibration_frame \<and>
   take 24 example_calibration_frame = example_calibration_frame \<and>
   fst (get_calibration_info CallOk (RecvData example_calibration_frame) fresh_connected) =
     Inr (1, 2, 1000, 1000, [10, 10, 10], [5, 5, 5])"
  using calibration_layout [of fresh_connected example_calibration_frame]
  by (simp add: fresh_connected_def init_def example_calibration_frame_def
        sint_of_uint_16 sint_of_uint_32 uint_word_rcat_2 uint_word_rcat_4)

text \<open>
  Claim C9, as stated, fails: a frame shorter than four bytes is not decoded silently.
  On the three bytes 00 00 01 the index \<^verbatim>\<open>response_data[3]\<close> raises IndexError, which
  \<open>get_calibration_info\<close> does not catch.
\<close>

theorem short_calibration_frame_counterexample:
  "fst (get_calibration_info CallOk (RecvData [0, 0, 1]) fresh_connected) = Inl IndexError"
  by (simp add: get_calibration_info_data parse_calibration_short fresh_connected_def)

text \<open>
  Claim C9, amended. \<open>get_calibration_info\<close> checks no frame length. A received frame
  of at least four bytes, however short otherwise, is decoded without an error: every
  multi-byte field is read from the bytes that its slice still holds (none giving 0).
  A frame of fewer than four bytes raises IndexError at the unit codes.
\<close>

theorem short_calibration_frame:
  assumes "connected st"
  shows "(length data < 4 \<longrightarrow>
            fst (get_calibration_info CallOk (RecvData data) st) = Inl IndexError) \<and>
         (4 \<le> length data \<longrightarrow>
            fst (get_calibration_info CallOk (RecvData data) st) =
              Inr (uint (data ! 2), uint (data ! 3),
                   int_from_bytes_signed (py_slice data 4 8),
                   int_from_bytes_signed (py_slice data 8 12),
                   [int_from_bytes_signed (py_slice data 12 14),
                    int_from_bytes_signed (py_slice data 14 16),
                    int_from_bytes_signed (py_slice data 16 18)],
                   [int_from_bytes_signed (py_slice data 18 20),
                    int_from_bytes_signed (py_slice data 20 22),
                    int_from_bytes_signed (py_slice data 22 24)]))"
proof (intro conjI impI)
  assume "length data < 4"
  then have "length (take BUFFER_SIZE data) < 4" by simp
  then show "fst (get_calibration_info CallOk (RecvData data) st) = Inl IndexError"
    using assms by (simp only: get_calibration_info_data parse_calibration_short)
next
  assume len: "4 \<le> length data"
  then have "4 \<le> length (take BUFFER_SIZE data)" by (simp add: BUFFER_SIZE_def)
  then have "fst (get_calibration_info CallOk (RecvData data) st) =
      Inr (uint (take BUFFER_SIZE data ! 2), uint (take BUFFER_SIZE data ! 3),
           int_from_bytes_signed (py_slice (take BUFFER_SIZE data) 4 8),
           int_from_bytes_signed (py_slice (take BUFFER_SIZE data) 8 12),
           [int_from_bytes_signed (py_slice (take BUFFER_SIZE data) 12 14),
            int_from_bytes_signed (py_slice (take BUFFER_SIZE data) 14 16),
            int_from_bytes_signed (py_slice (take BUFFER_SIZE data) 16 18)],
           [int_from_bytes_signed (py_slice (take BUFFER_SIZE data) 18 20),
            int_from_bytes_signed (py_slice (take BUFFER_SIZE data) 20 22),
            int_from_bytes_signed (py_slice (take BUFFER_SIZE data) 22 24)])"
    using assms by (simp only: get_calibration_info_data parse_calibration_fields)
  then show "fst (get_calibration_info CallOk (RecvData data) st) =
              Inr (uint (data ! 2), uint (data ! 3),
                   int_from_bytes_signed (py_slice data 4 8),
                   int_from_bytes_signed (py_slice data 8 12),
                   [int_from_bytes_signed (py_slice data 12 14),
                    int_from_bytes_signed (py_slice data 14 16),
                    int_from_bytes_signed (py_slice data 16 18)],
                   [int_from_bytes_signed (py_slice data 18 20),
                    int_from_bytes_signed (py_slice data 20 22),
                    int_from_bytes_signed (py_slice data 22 24)])"
    by (simp add: py_slice_take BUFFER_SIZE_def)
qed

theorem short_calibration_frame_witness:
  "connected fresh_connected \<and>
   length [0, 0, 1 :: byte] < 4 \<and>
   fst (get_calibration_info CallOk (RecvData [0, 0, 1]) fresh_connected) = Inl IndexError \<and>
   4 \<le> length (butlast example_calibration_frame) \<and>
   length (butlast example_calibration_frame) < 24 \<and>
   fst (get_calibration_info CallOk (RecvData (butlast example_calibration_frame))
          fresh_connected) =
     Inr (1, 2, 1000, 1000, [10, 10, 10], [5, 5, 0])"
  using short_calibration_frame [of fresh_connected "[0, 0, 1]"]
    short_calibration_frame [of fresh_connected "butlast example_calibration_frame"]
  by (simp add: fresh_connected_def init_def example_calibration_frame_def
        py_slice_def int_from_bytes_signed_def from_bytes_unsigned_def)

section \<open>Time-outs\<close>

text \<open>
  Claim C3. On a connected object, when \<^verbatim>\<open>recv\<close> raises \<^verbatim>\<open>socket.timeout\<close>, \<open>get_data\<close>
  returns \<^verbatim>\<open>(None, None)\<close> and raises nothing, whereas \<open>get_calibration_info\<close> raises
  the calibration time-out exception and the last call made on the socket is \<^verbatim>\<open>close\<close>;
  the same holds for \<^verbatim>\<open>__enter__\<close>, which runs the calibration exchange.
\<close>

theorem timeout_sample_and_calibration:
  assumes "connected st"
  shows "fst (get_data ops raw CallOk (RecvRaises SocketTimeout) st) = Inr (None, None) \<and>
         fst (get_calibration_info CallOk (RecvRaises SocketTimeout) st) =
           Inl CalibrationTimeout \<and>
         last (sock_calls (snd (get_calibration_info CallOk (RecvRaises SocketTimeout) st))) =
           Close \<and>
         fst (enter CallOk CallOk (RecvRaises SocketTimeout) st) = Inl CalibrationTimeout \<and>
         last (sock_calls (snd (enter CallOk CallOk (RecvRaises SocketTimeout) st))) = Close"
  using assms
  by (simp add: get_data_def get_calibration_info_def enter_def sock_call_def Let_def)

theorem timeout_sample_and_calibration_witness:
  "connected example_sensor \<and>
   get_data exact_ops False CallOk (RecvRaises SocketTimeout) example_sensor =
     (Inr (None, None),
      example_sensor\<lparr>sock_calls :=
        [Connect, SetTimeout, SendAll (0 # replicate 19 0), Recv 1024]\<rparr>) \<and>
   get_calibration_info CallOk (RecvRaises SocketTimeout) example_sensor =
     (Inl CalibrationTimeout,
      example_sensor\<lparr>sock_calls :=
        [Connect, SetTimeout, SendAll (1 # replicate 19 0), Recv 1024, Close]\<rparr>)"
  using timeout_sample_and_calibration [of example_sensor exact_ops False]
  by (simp add: get_data_def get_calibration_info_def sock_call_def Let_def
        example_sensor_def fresh_connected_def init_def construct_command_def
        MESSAGE_LENGTH_def BUFFER_SIZE_def)

section \<open>Sample frames\<close>

lemma axis_loop_3_iff:
  "axis_loop ops raw data off sf cpu bias [0, 1, 2] [v0, v1, v2] = Inr V \<longleftrightarrow>
     3 \<le> length sf \<and> (raw \<or> 3 \<le> length bias) \<and>
     (\<exists>d. cpu = Some d \<and> d \<noteq> 0 \<and>
        V = map (axis_value ops raw data off sf d bias) [0, 1, 2])"
  by (cases cpu; cases raw)
     (auto simp: axis_value_def py_index_def py_truediv_def Let_def)

lemma axis_loop_zero_divisor:
  "sf \<noteq> [] \<Longrightarrow> axis_loop ops raw data off sf (Some 0) bias (0 # is) V = Inl ZeroDivisionError"
  by (simp add: py_index_def py_truediv_def)

lemma axis_loop_raw_bias:
  "axis_loop ops True data off sf cpu b1 is V = axis_loop ops True data off sf cpu b2 is V"
  by (induction "is" arbitrary: V) (simp_all add: Let_def split: sum.splits)

lemma range_len_3: "[0..<length [a, b, c]] = [0, 1, 2]"
  by (simp add: upt_rec)

lemma both_axes_iff:
  "(case a of Inl e \<Rightarrow> Inl e
    | Inr x \<Rightarrow> (case b of Inl e \<Rightarrow> Inl e | Inr y \<Rightarrow> Inr (Some x, Some y))) = Inr (F, T) \<longleftrightarrow>
   (\<exists>x y. a = Inr x \<and> b = Inr y \<and> F = Some x \<and> T = Some y)"
  by (cases a; cases b) auto

lemma decode_sample_iff:
  "decode_sample ops raw data st = Inr (F, T) \<longleftrightarrow>
     3 \<le> length (scaling_factors_F st) \<and> 3 \<le> length (scaling_factors_T st) \<and>
     (raw \<or> 3 \<le> length (F_bias st) \<and> 3 \<le> length (T_bias st)) \<and>
     (\<exists>cf ct. counts_per_force st = Some cf \<and> cf \<noteq> 0 \<and>
        counts_per_torque st = Some ct \<and> ct \<noteq> 0 \<and>
        F = Some (map (axis_value ops raw data 4 (scaling_factors_F st) cf (F_bias st)) [0, 1, 2]) \<and>
        T = Some (map (axis_value ops raw data 10 (scaling_factors_T st) ct (T_bias st)) [0, 1, 2]))"
  unfolding decode_sample_def Let_def range_len_3 both_axes_iff axis_loop_3_iff
  by blast

lemma get_data_connected:
  "connected st \<Longrightarrow>
   get_data ops raw CallOk (RecvData d) st =
     (decode_sample ops raw (take BUFFER_SIZE d) st,
      sock_call (Recv BUFFER_SIZE) (sock_call (SendAll (construct_command [0])) st))"
  by (simp add: get_data_def Let_def)

lemma get_data_disconnected:
  "\<not> connected st \<Longrightarrow> get_data ops raw send recv st = (Inr (None, None), st)"
  by (simp add: get_data_def)

lemma get_data_state:
  "\<exists>calls. snd (get_data ops raw send recv st) = st\<lparr>sock_calls := calls\<rparr>"
proof (cases "connected st")
  case False
  then have "snd (get_data ops raw send recv st) = st\<lparr>sock_calls := sock_calls st\<rparr>"
    by (simp add: get_data_def)
  then show ?thesis ..
next
  case True
  then show ?thesis
    by (cases send; cases recv) (auto simp: get_data_def sock_call_def Let_def)
qed

lemma decode_sample_shape:
  "decode_sample ops raw data st = Inr (F, T) \<Longrightarrow> \<exists>f t. F = Some f \<and> T = Some t"
  by (auto simp: decode_sample_iff)

lemma get_data_shape:
  assumes "fst (get_data ops raw send recv st) = Inr (F, T)"
  shows "(F = None \<and> T = None) \<or> (\<exists>f t. F = Some f \<and> T = Some t)"
proof (cases "connected st")
  case False
  with assms show ?thesis by (simp add: get_data_disconnected)
next
  case True
  show ?thesis
  proof (cases send)
    case (CallRaises e)
    with True assms show ?thesis by (simp add: get_data_def Let_def)
  next
    case CallOk
    show ?thesis
    proof (cases recv)
      case (RecvRaises e)
      with True CallOk assms show ?thesis
        by (simp add: get_data_def Let_def split: if_splits)
    next
      case (RecvData d)
      with True CallOk assms
      have "decode_sample ops raw (take BUFFER_SIZE d) st = Inr (F, T)"
        by (simp add: get_data_connected)
      then show ?thesis by (blast dest: decode_sample_shape)
    qed
  qed
qed

lemma get_data_lists_iff:
  "get_data ops raw send recv st = (Inr (Some F, Some T), s) \<longleftrightarrow>
     connected st \<and> send = CallOk \<and>
     (\<exists>d. recv = RecvData d \<and>
        decode_sample ops raw (take BUFFER_SIZE d) st = Inr (Some F, Some T)) \<and>
     s = sock_call (Recv BUFFER_SIZE) (sock_call (SendAll (construct_command [0])) st)"
proof (cases "connected st")
  case False
  then show ?thesis by (simp add: get_data_disconnected)
next
  case True
  then show ?thesis
    by (cases send; cases recv) (auto simp: get_data_def Let_def)
qed

lemma zero_sensor_success_iff:
  "zero_sensor ops send recv st = (Inr (), st1) \<longleftrightarrow>
     (\<exists>F T s. get_data ops True send recv st = (Inr (Some F, Some T), s) \<and>
        st1 = s\<lparr>F_bias := F, T_bias := T\<rparr>)"
proof (cases "get_data ops True send recv st")
  case (Pair r s)
  show ?thesis
  proof (cases r)
    case (Inl e)
    with Pair show ?thesis by (simp add: zero_sensor_def)
  next
    case (Inr p)
    obtain F T where p: "p = (F, T)" by (cases p)
    from Pair Inr p get_data_shape [of ops True send recv st F T]
    consider "F = None" "T = None" | f t where "F = Some f" "T = Some t"
      by auto
    then show ?thesis
      by cases (use Pair Inr p in \<open>auto simp: zero_sensor_def Let_def\<close>)
  qed
qed

lemma zero_sensor_failure_state:
  "fst (zero_sensor ops send recv st) \<noteq> Inr () \<Longrightarrow>
   snd (zero_sensor ops send recv st) = snd (get_data ops True send recv st)"
proof (cases "get_data ops True send recv st")
  case (Pair r s)
  assume fail: "fst (zero_sensor ops send recv st) \<noteq> Inr ()"
  show ?thesis
  proof (cases r)
    case (Inl e)
    with Pair show ?thesis by (simp add: zero_sensor_def)
  next
    case (Inr p)
    obtain F T where p: "p = (F, T)" by (cases p)
    from Pair Inr p get_data_shape [of ops True send recv st F T]
    consider "F = None" "T = None" | f t where "F = Some f" "T = Some t"
      by auto
    then show ?thesis
      by cases (use Pair Inr p fail in \<open>auto simp: zero_sensor_def Let_def\<close>)
  qed
qed


lemma py_slice_within:
  "lo \<le> a \<Longrightarrow> b \<le> hi \<Longrightarrow> py_slice xs a b = py_slice (py_slice xs lo hi) (a - lo) (b - lo)"
  unfolding py_slice_def by (simp add: drop_take min_def)

lemma axis_value_same_counts:
  assumes "py_slice d2 4 16 = py_slice d1 4 16" and "off = 4 \<or> off = 10" and "i < 3"
  shows "py_slice (take BUFFER_SIZE d2) (off + i * 2) (off + i * 2 + 2) =
         py_slice (take BUFFER_SIZE d1) (off + i * 2) (off + i * 2 + 2)"
proof -
  have b: "4 \<le> off + i * 2" "off + i * 2 + 2 \<le> 16" "off + i * 2 + 2 \<le> BUFFER_SIZE"
    using assms(2,3) by (auto simp: BUFFER_SIZE_def)
  let ?a = "off + i * 2" and ?b = "off + i * 2 + 2"
  have "py_slice (take BUFFER_SIZE d2) ?a ?b = py_slice d2 ?a ?b"
    by (rule py_slice_take [OF b(3)])
  also have "\<dots> = py_slice (py_slice d2 4 16) (?a - 4) (?b - 4)"
    by (rule py_slice_within [OF b(1,2)])
  also have "\<dots> = py_slice (py_slice d1 4 16) (?a - 4) (?b - 4)"
    by (simp only: assms(1))
  also have "\<dots> = py_slice d1 ?a ?b"
    by (rule py_slice_within [OF b(1,2), symmetric])
  also have "\<dots> = py_slice (take BUFFER_SIZE d1) ?a ?b"
    by (rule py_slice_take [OF b(3), symmetric])
  finally show ?thesis .
qed

lemma decode_sample_raw_agree:
  assumes "scaling_factors_F st1 = scaling_factors_F st2"
    and "scaling_factors_T st1 = scaling_factors_T st2"
    and "counts_per_force st1 = counts_per_force st2"
    and "counts_per_torque st1 = counts_per_torque st2"
  shows "decode_sample ops True d st1 = decode_sample ops True d st2"
  unfolding decode_sample_def Let_def
  by (simp only: assms axis_loop_raw_bias [of _ _ _ _ _ "F_bias st1" _ _ "F_bias st2"]
        axis_loop_raw_bias [of _ _ _ _ _ "T_bias st1" _ _ "T_bias st2"])

lemma get_data_raw_bias:
  "fst (get_data ops True send recv (st\<lparr>F_bias := fb, T_bias := tb\<rparr>)) =
   fst (get_data ops True send recv st)"
proof -
  have "decode_sample ops True d (st\<lparr>F_bias := fb, T_bias := tb\<rparr>) = decode_sample ops True d st"
    for d
    by (rule decode_sample_raw_agree) simp_all
  then show ?thesis
    by (cases send; cases recv) (simp_all add: get_data_def Let_def)
qed

lemmas eval_defs =
  zero_sensor_def get_data_def decode_sample_def Let_def py_index_def py_truediv_def py_sub_def
  py_slice_def int_from_bytes_signed_def from_bytes_unsigned_def sock_call_def
  construct_command_def MESSAGE_LENGTH_def BUFFER_SIZE_def exact_ops_def
  example_sensor_def fresh_connected_def init_def example_sample_frame_def

text \<open>
  Claim C1, as stated, fails on a frame that does not hold the six fields: no frame
  length is checked and a slice beyond the end of the frame is shorter or empty. On the
  five bytes 00 00 00 00 9C there are no two bytes at offset 4; the single byte 9C is read
  as the 8-bit value -100, the other five raw values are 0, and nothing is raised. Neither
  16-bit reading of 9C with a zero byte beside it gives -100.
\<close>

theorem short_sample_frame_counterexample:
  "length [0x00, 0x00, 0x00, 0x00, 0x9C :: byte] < 16 \<and>
   fst (get_data exact_ops True CallOk (RecvData [0x00, 0x00, 0x00, 0x00, 0x9C])
          example_sensor) =
     Inr (Some [PyFloat (- 1), PyFloat 0, PyFloat 0],
          Some [PyFloat 0, PyFloat 0, PyFloat 0]) \<and>
   truediv exact_ops (- 100 * 10) 1000 = - 1 \<and>
   sint (word_rcat [0x9C, 0x00 :: byte] :: 16 word) = - 25600 \<and>
   sint (word_rcat [0x00, 0x9C :: byte] :: 16 word) = 156"
  by (simp add: eval_defs sint_of_uint_16 uint_word_rcat_2)

text \<open>
  Claim C1, amended. On a connected object with three scaling factors per group and
  nonzero divisors, for every received frame of at least 16 bytes, \<open>get_data\<close> returns
  for axis \<open>i\<close> the float quotient of the signed 16-bit big-endian value at offset
  \<open>4 + 2i\<close> (force) or \<open>10 + 2i\<close> (torque) times the scaling factor of the axis, by the
  counts per force or per torque; with \<open>raw\<close> false the bias component of the axis is
  subtracted from that quotient, with \<open>raw\<close> true the quotient is returned as it is.
\<close>

theorem get_data_decodes:
  assumes "connected st" and "16 \<le> length data"
    and "3 \<le> length (scaling_factors_F st)" and "3 \<le> length (scaling_factors_T st)"
    and "counts_per_force st = Some cf" and "cf \<noteq> 0"
    and "counts_per_torque st = Some ct" and "ct \<noteq> 0"
    and "raw \<or> 3 \<le> length (F_bias st) \<and> 3 \<le> length (T_bias st)"
  shows "fst (get_data ops raw CallOk (RecvData data) st) =
     Inr (Some (map (\<lambda>i.
                  let r = sint (word_rcat [data ! (4 + 2 * i), data ! (5 + 2 * i)] :: 16 word);
                      x = truediv ops (r * scaling_factors_F st ! i) cf
                  in PyFloat (if raw then x else py_sub ops x (F_bias st ! i))) [0, 1, 2]),
          Some (map (\<lambda>i.
                  let r = sint (word_rcat [data ! (10 + 2 * i), data ! (11 + 2 * i)] :: 16 word);
                      x = truediv ops (r * scaling_factors_T st ! i) ct
                  in PyFloat (if raw then x else py_sub ops x (T_bias st ! i))) [0, 1, 2]))"
proof -
  let ?d = "take BUFFER_SIZE data"
  have len: "16 \<le> length ?d" using assms(2) by (simp add: BUFFER_SIZE_def)
  have nth: "\<And>i. i < 16 \<Longrightarrow> ?d ! i = data ! i" by (simp add: BUFFER_SIZE_def)
  have raw_value: "int_from_bytes_signed (py_slice ?d (off + i * 2) (off + i * 2 + 2)) =
      sint (word_rcat [data ! (off + 2 * i), data ! (Suc off + 2 * i)] :: 16 word)"
    if "off + i * 2 + 2 \<le> 16" for off i
    using that len by (simp add: py_slice_2 int_from_bytes_signed_2 nth mult.commute)
  have "decode_sample ops raw ?d st =
     Inr (Some (map (axis_value ops raw ?d 4 (scaling_factors_F st) cf (F_bias st)) [0, 1, 2]),
          Some (map (axis_value ops raw ?d 10 (scaling_factors_T st) ct (T_bias st)) [0, 1, 2]))"
    unfolding decode_sample_iff using assms by simp
  moreover have "axis_value ops raw ?d 4 (scaling_factors_F st) cf (F_bias st) i =
      (let r = sint (word_rcat [data ! (4 + 2 * i), data ! (5 + 2 * i)] :: 16 word);
           x = truediv ops (r * scaling_factors_F st ! i) cf
       in PyFloat (if raw then x else py_sub ops x (F_bias st ! i)))" if "i < 3" for i
    using that raw_value [of 4 i] by (simp add: axis_value_def Let_def)
  moreover have "axis_value ops raw ?d 10 (scaling_factors_T st) ct (T_bias st) i =
      (let r = sint (word_rcat [data ! (10 + 2 * i), data ! (11 + 2 * i)] :: 16 word);
           x = truediv ops (r * scaling_factors_T st ! i) ct
       in PyFloat (if raw then x else py_sub ops x (T_bias st ! i)))" if "i < 3" for i
    using that raw_value [of 10 i] by (simp add: axis_value_def Let_def)
  ultimately show ?thesis
    using assms(1) by (simp add: get_data_connected)
qed

theorem get_data_decodes_witness:
  "connected example_sensor \<and> 16 \<le> length example_sample_frame \<and>
   get_data exact_ops True CallOk (RecvData example_sample_frame) example_sensor =
     (Inr (Some [PyFloat 1, PyFloat 1, PyFloat 1],
           Some [PyFloat (1 / 4), PyFloat (1 / 4), PyFloat (1 / 4)]),
      example_sensor\<lparr>sock_calls :=
        [Connect, SetTimeout, SendAll (0 # replicate 19 0), Recv 1024]\<rparr>) \<and>
   fst (get_data exact_ops False CallOk (RecvData example_sample_frame)
          (example_sensor\<lparr>F_bias := [PyFloat 1, PyFloat (1 / 2), PyInt 0],
                           T_bias := [PyFloat (1 / 4), PyInt 0, PyFloat 1]\<rparr>)) =
     Inr (Some [PyFloat 0, PyFloat (1 / 2), PyFloat 1],
          Some [PyFloat 0, PyFloat (1 / 4), PyFloat (- 3 / 4)])"
  using get_data_decodes [of example_sensor example_sample_frame 1000 1000 True exact_ops]
    get_data_decodes [of "example_sensor\<lparr>F_bias := [PyFloat 1, PyFloat (1 / 2), PyInt 0],
                           T_bias := [PyFloat (1 / 4), PyInt 0, PyFloat 1]\<rparr>"
       example_sample_frame 1000 1000 False exact_ops]
  by (simp add: example_sensor_def fresh_connected_def init_def example_sample_frame_def
        exact_ops_def py_sub_def sint_of_uint_16 uint_word_rcat_2
        get_data_connected sock_call_def construct_command_def MESSAGE_LENGTH_def BUFFER_SIZE_def)

text \<open>
  Claim C4, as stated, fails: no guard precedes the division. With a zero in
  \<open>counts_per_force\<close> the division is performed and raises ZeroDivisionError.
\<close>

theorem zero_divisor_counterexample:
  "fst (get_data exact_ops True CallOk (RecvData example_sample_frame)
         (example_sensor\<lparr>counts_per_force := Some 0\<rparr>)) = Inl ZeroDivisionError"
  by (simp add: get_data_def decode_sample_def example_sensor_def fresh_connected_def
        init_def Let_def py_index_def py_truediv_def)

text \<open>
  Claim C4, amended. On a connected object whose calibration has three scaling factors
  per group and both divisors set, if \<open>counts_per_force\<close> or \<open>counts_per_torque\<close> is
  zero then \<open>get_data\<close> on a received frame does not guard the division and fails with
  the interpreter's ZeroDivisionError.
\<close>

theorem zero_divisor_unguarded:
  assumes "connected st"
    and "3 \<le> length (scaling_factors_F st)" and "3 \<le> length (scaling_factors_T st)"
    and "raw \<or> 3 \<le> length (F_bias st) \<and> 3 \<le> length (T_bias st)"
    and "counts_per_force st = Some cf" and "counts_per_torque st = Some ct"
    and "cf = 0 \<or> ct = 0"
  shows "fst (get_data ops raw CallOk (RecvData data) st) = Inl ZeroDivisionError"
proof -
  let ?d = "take BUFFER_SIZE data"
  let ?F = "axis_loop ops raw ?d 4 (scaling_factors_F st) (counts_per_force st) (F_bias st)
              [0, 1, 2] [PyInt 0, PyInt 0, PyInt 0]"
  let ?T = "axis_loop ops raw ?d 10 (scaling_factors_T st) (counts_per_torque st) (T_bias st)
              [0, 1, 2] [PyInt 0, PyInt 0, PyInt 0]"
  have ne: "scaling_factors_F st \<noteq> []" "scaling_factors_T st \<noteq> []"
    using assms(2,3) by auto
  have dec: "decode_sample ops raw ?d st =
      (case ?F of Inl e \<Rightarrow> Inl e
       | Inr F' \<Rightarrow> (case ?T of Inl e \<Rightarrow> Inl e | Inr T' \<Rightarrow> Inr (Some F', Some T')))"
    by (simp only: decode_sample_def Let_def range_len_3)
  have "decode_sample ops raw ?d st = Inl ZeroDivisionError"
  proof (cases "cf = 0")
    case True
    have "?F = Inl ZeroDivisionError"
      unfolding assms(5) True by (rule axis_loop_zero_divisor [OF ne(1)])
    then show ?thesis by (simp only: dec sum.case)
  next
    case False
    then have \<open>ct = 0\<close> using assms(7) by simp
    have T: "?T = Inl ZeroDivisionError"
      unfolding assms(6) \<open>ct = 0\<close> by (rule axis_loop_zero_divisor [OF ne(2)])
    have "\<exists>V. ?F = Inr V"
      unfolding axis_loop_3_iff using assms(2,4,5) False by auto
    then obtain V where "?F = Inr V" ..
    then show ?thesis by (simp only: dec T sum.case)
  qed
  then show ?thesis using assms(1) by (simp add: get_data_connected)
qed

theorem zero_divisor_unguarded_witness:
  "connected (example_sensor\<lparr>counts_per_torque := Some 0\<rparr>) \<and>
   counts_per_force (example_sensor\<lparr>counts_per_torque := Some 0\<rparr>) = Some 1000 \<and>
   counts_per_torque (example_sensor\<lparr>counts_per_torque := Some 0\<rparr>) = Some 0 \<and>
   fst (get_data exact_ops False CallOk (RecvData example_sample_frame)
         (example_sensor\<lparr>counts_per_torque := Some 0\<rparr>)) = Inl ZeroDivisionError"
  using zero_divisor_unguarded [of "example_sensor\<lparr>counts_per_torque := Some 0\<rparr>"
          False 1000 0 exact_ops example_sample_frame]
  by (simp add: example_sensor_def fresh_connected_def init_def)




text \<open>
  Claim C8. Two objects that agree on the connection flag, the scaling factors and the
  divisors return the same result from \<open>get_data\<close> with \<open>raw\<close> true on the same
  transport behaviour, whatever their bias lists are.
\<close>

theorem raw_read_ignores_bias:
  assumes "connected st1 = connected st2"
    and "scaling_factors_F st1 = scaling_factors_F st2"
    and "scaling_factors_T st1 = scaling_factors_T st2"
    and "counts_per_force st1 = counts_per_force st2"
    and "counts_per_torque st1 = counts_per_torque st2"
  shows "fst (get_data ops True send recv st1) = fst (get_data ops True send recv st2)"
proof -
  have "decode_sample ops True d st1 = decode_sample ops True d st2" for d
    using assms(2-5) by (rule decode_sample_raw_agree)
  then show ?thesis
    using assms(1) by (cases send; cases recv) (simp_all add: get_data_def Let_def)
qed

theorem raw_read_ignores_bias_witness:
  "fst (get_data exact_ops True CallOk (RecvData example_sample_frame)
          (example_sensor\<lparr>F_bias := [PyFloat 7, PyFloat 8, PyFloat 9],
                           T_bias := [PyFloat 1, PyFloat 2, PyFloat 3]\<rparr>)) =
   fst (get_data exact_ops True CallOk (RecvData example_sample_frame) example_sensor) \<and>
   fst (get_data exact_ops True CallOk (RecvData example_sample_frame) example_sensor) =
     Inr (Some [PyFloat 1, PyFloat 1, PyFloat 1],
          Some [PyFloat (1 / 4), PyFloat (1 / 4), PyFloat (1 / 4)])"
  using raw_read_ignores_bias [of
          "example_sensor\<lparr>F_bias := [PyFloat 7, PyFloat 8, PyFloat 9],
                           T_bias := [PyFloat 1, PyFloat 2, PyFloat 3]\<rparr>"
          example_sensor exact_ops CallOk "RecvData example_sample_frame"]
  by (simp add: eval_defs)

text \<open>
  Claim C10. \<open>get_data\<close> leaves the scaling factors, the divisors, the unit codes and
  both bias lists as they were, for every flag, transport behaviour and state;
  \<open>get_calibration_info\<close> leaves the bias lists as they were too.
\<close>

theorem get_data_frame:
  "scaling_factors_F (snd (get_data ops raw send recv st)) = scaling_factors_F st \<and>
   scaling_factors_T (snd (get_data ops raw send recv st)) = scaling_factors_T st \<and>
   counts_per_force (snd (get_data ops raw send recv st)) = counts_per_force st \<and>
   counts_per_torque (snd (get_data ops raw send recv st)) = counts_per_torque st \<and>
   force_units (snd (get_data ops raw send recv st)) = force_units st \<and>
   torque_units (snd (get_data ops raw send recv st)) = torque_units st \<and>
   F_bias (snd (get_data ops raw send recv st)) = F_bias st \<and>
   T_bias (snd (get_data ops raw send recv st)) = T_bias st \<and>
   F_bias (snd (get_calibration_info send recv st)) = F_bias st \<and>
   T_bias (snd (get_calibration_info send recv st)) = T_bias st"
proof -
  obtain calls where "snd (get_data ops raw send recv st) = st\<lparr>sock_calls := calls\<rparr>"
    using get_data_state by blast
  moreover have "F_bias (snd (get_calibration_info send recv st)) = F_bias st \<and>
     T_bias (snd (get_calibration_info send recv st)) = T_bias st"
    by (cases send; cases recv) (simp_all add: get_calibration_info_def sock_call_def Let_def)
  ultimately show ?thesis by simp
qed

section \<open>Zeroing\<close>

text \<open>
  Claim C6. When \<open>zero_sensor\<close> succeeds, both bias lists are the lists that \<open>get_data\<close>
  with \<open>raw\<close> true returns on the same read, and they are the same lists whatever the
  bias was before. When \<open>zero_sensor\<close> does not succeed (the read raises, or returns
  \<^verbatim>\<open>(None, None)\<close> on a time-out), both bias lists are left as they were.
\<close>

theorem zero_sensor_replaces_bias:
  "(fst (zero_sensor ops send recv st) = Inr () \<longrightarrow>
      (\<exists>F T. fst (get_data ops True send recv st) = Inr (Some F, Some T) \<and>
         F_bias (snd (zero_sensor ops send recv st)) = F \<and>
         T_bias (snd (zero_sensor ops send recv st)) = T \<and>
         (\<forall>fb tb.
            fst (zero_sensor ops send recv (st\<lparr>F_bias := fb, T_bias := tb\<rparr>)) = Inr () \<and>
            F_bias (snd (zero_sensor ops send recv (st\<lparr>F_bias := fb, T_bias := tb\<rparr>))) = F \<and>
            T_bias (snd (zero_sensor ops send recv (st\<lparr>F_bias := fb, T_bias := tb\<rparr>))) = T))) \<and>
   (fst (zero_sensor ops send recv st) \<noteq> Inr () \<longrightarrow>
      F_bias (snd (zero_sensor ops send recv st)) = F_bias st \<and>
      T_bias (snd (zero_sensor ops send recv st)) = T_bias st)"
proof (rule conjI; rule impI)
  assume ok: "fst (zero_sensor ops send recv st) = Inr ()"
  then have "zero_sensor ops send recv st = (Inr (), snd (zero_sensor ops send recv st))"
    by (simp add: prod_eq_iff)
  then obtain F T s where
    g: "get_data ops True send recv st = (Inr (Some F, Some T), s)" and
    s: "snd (zero_sensor ops send recv st) = s\<lparr>F_bias := F, T_bias := T\<rparr>"
    unfolding zero_sensor_success_iff by blast
  have other: "fst (zero_sensor ops send recv (st\<lparr>F_bias := fb, T_bias := tb\<rparr>)) = Inr () \<and>
      F_bias (snd (zero_sensor ops send recv (st\<lparr>F_bias := fb, T_bias := tb\<rparr>))) = F \<and>
      T_bias (snd (zero_sensor ops send recv (st\<lparr>F_bias := fb, T_bias := tb\<rparr>))) = T" for fb tb
  proof -
    let ?st = "st\<lparr>F_bias := fb, T_bias := tb\<rparr>"
    have "fst (get_data ops True send recv ?st) = Inr (Some F, Some T)"
      using g by (simp add: get_data_raw_bias)
    then have "get_data ops True send recv ?st =
        (Inr (Some F, Some T), snd (get_data ops True send recv ?st))"
      by (simp add: prod_eq_iff)
    then have "zero_sensor ops send recv ?st =
        (Inr (), (snd (get_data ops True send recv ?st))\<lparr>F_bias := F, T_bias := T\<rparr>)"
      unfolding zero_sensor_success_iff by blast
    then show ?thesis by simp
  qed
  show "\<exists>F T. fst (get_data ops True send recv st) = Inr (Some F, Some T) \<and>
         F_bias (snd (zero_sensor ops send recv st)) = F \<and>
         T_bias (snd (zero_sensor ops send recv st)) = T \<and>
         (\<forall>fb tb.
            fst (zero_sensor ops send recv (st\<lparr>F_bias := fb, T_bias := tb\<rparr>)) = Inr () \<and>
            F_bias (snd (zero_sensor ops send recv (st\<lparr>F_bias := fb, T_bias := tb\<rparr>))) = F \<and>
            T_bias (snd (zero_sensor ops send recv (st\<lparr>F_bias := fb, T_bias := tb\<rparr>))) = T)"
    by (rule exI [of _ F], rule exI [of _ T]) (simp add: g s other)
next
  assume "fst (zero_sensor ops send recv st) \<noteq> Inr ()"
  then have "snd (zero_sensor ops send recv st) = snd (get_data ops True send recv st)"
    by (rule zero_sensor_failure_state)
  moreover obtain calls where "snd (get_data ops True send recv st) = st\<lparr>sock_calls := calls\<rparr>"
    using get_data_state by blast
  ultimately show "F_bias (snd (zero_sensor ops send recv st)) = F_bias st \<and>
      T_bias (snd (zero_sensor ops send recv st)) = T_bias st"
    by simp
qed

theorem zero_sensor_replaces_bias_witness:
  "zero_sensor exact_ops CallOk (RecvData example_sample_frame)
      (example_sensor\<lparr>F_bias := [PyFloat 7, PyFloat 8, PyFloat 9]\<rparr>) =
     (Inr (),
      example_sensor\<lparr>F_bias := [PyFloat 1, PyFloat 1, PyFloat 1],
                      T_bias := [PyFloat (1 / 4), PyFloat (1 / 4), PyFloat (1 / 4)],
                      sock_calls := [Connect, SetTimeout, SendAll (0 # replicate 19 0),
                                     Recv 1024]\<rparr>) \<and>
   fst (zero_sensor exact_ops CallOk (RecvRaises SocketTimeout)
      (example_sensor\<lparr>F_bias := [PyFloat 7, PyFloat 8, PyFloat 9]\<rparr>)) = Inl AttributeError \<and>
   F_bias (snd (zero_sensor exact_ops CallOk (RecvRaises SocketTimeout)
      (example_sensor\<lparr>F_bias := [PyFloat 7, PyFloat 8, PyFloat 9]\<rparr>))) =
     [PyFloat 7, PyFloat 8, PyFloat 9]"
  using zero_sensor_replaces_bias [of exact_ops CallOk "RecvData example_sample_frame"
          "example_sensor\<lparr>F_bias := [PyFloat 7, PyFloat 8, PyFloat 9]\<rparr>"]
    zero_sensor_replaces_bias [of exact_ops CallOk "RecvRaises SocketTimeout"
          "example_sensor\<lparr>F_bias := [PyFloat 7, PyFloat 8, PyFloat 9]\<rparr>"]
  by (simp add: eval_defs)

text \<open>
  Claim C7. If \<open>zero_sensor\<close> succeeds on a frame, a following \<open>get_data\<close> with \<open>raw\<close>
  false on a frame with the same bytes 4 to 15 returns force and torque lists of zeros,
  provided that subtracting the float quotient of two integers (the divisor nonzero) from
  itself gives zero. Nothing is assumed of the subtraction on other floats, such as
  infinities or NaN, which a quotient of integers never is.
\<close>

theorem zero_then_corrected_read:
  assumes z: "zero_sensor ops CallOk (RecvData d1) st = (Inr (), st1)"
    and same: "py_slice d2 4 16 = py_slice d1 4 16"
    and sub: "\<forall>n d. d \<noteq> 0 \<longrightarrow>
                  fsub ops (truediv ops n d) (truediv ops n d) = float_of_int ops 0"
  shows "fst (get_data ops False CallOk (RecvData d2) st1) =
           Inr (Some (replicate 3 (PyFloat (float_of_int ops 0))),
                Some (replicate 3 (PyFloat (float_of_int ops 0))))"
proof -
  let ?io = "sock_call (Recv BUFFER_SIZE) (sock_call (SendAll (construct_command [0])) st)"
  from z obtain F T where
    c: "connected st" and
    d: "decode_sample ops True (take BUFFER_SIZE d1) st = Inr (Some F, Some T)" and
    st1: "st1 = ?io\<lparr>F_bias := F, T_bias := T\<rparr>"
    unfolding zero_sensor_success_iff get_data_lists_iff by auto
  from d obtain cf ct where
    len: "3 \<le> length (scaling_factors_F st)" "3 \<le> length (scaling_factors_T st)" and
    cf: "counts_per_force st = Some cf" "cf \<noteq> 0" and
    ct: "counts_per_torque st = Some ct" "ct \<noteq> 0" and
    F: "F = map (axis_value ops True (take BUFFER_SIZE d1) 4 (scaling_factors_F st) cf (F_bias st))
                [0, 1, 2]" and
    T: "T = map (axis_value ops True (take BUFFER_SIZE d1) 10 (scaling_factors_T st) ct (T_bias st))
                [0, 1, 2]"
    unfolding decode_sample_iff by auto
  have c1: "connected st1" "scaling_factors_F st1 = scaling_factors_F st"
    "scaling_factors_T st1 = scaling_factors_T st" "counts_per_force st1 = Some cf"
    "counts_per_torque st1 = Some ct" "F_bias st1 = F" "T_bias st1 = T"
    using c cf ct by (simp_all add: st1 sock_call_def)
  have lenb: "length F = 3" "length T = 3" by (simp_all add: F T)
  have idx: "i = 0 \<or> i = 1 \<or> i = 2" if "i < 3" for i :: nat
    using that by auto
  have zeroF: "axis_value ops False (take BUFFER_SIZE d2) 4 (scaling_factors_F st) cf F i =
               PyFloat (float_of_int ops 0)" if "i < 3" for i
  proof -
    have "F ! i = axis_value ops True (take BUFFER_SIZE d1) 4 (scaling_factors_F st) cf (F_bias st) i"
      using idx [OF that] by (auto simp: F)
    then show ?thesis
      using axis_value_same_counts [OF same, of 4 i] that sub cf(2)
      by (simp add: axis_value_def py_sub_def Let_def)
  qed
  have zeroT: "axis_value ops False (take BUFFER_SIZE d2) 10 (scaling_factors_T st) ct T i =
               PyFloat (float_of_int ops 0)" if "i < 3" for i
  proof -
    have "T ! i = axis_value ops True (take BUFFER_SIZE d1) 10 (scaling_factors_T st) ct (T_bias st) i"
      using idx [OF that] by (auto simp: T)
    then show ?thesis
      using axis_value_same_counts [OF same, of 10 i] that sub ct(2)
      by (simp add: axis_value_def py_sub_def Let_def)
  qed
  have "decode_sample ops False (take BUFFER_SIZE d2) st1 =
          Inr (Some (map (axis_value ops False (take BUFFER_SIZE d2) 4 (scaling_factors_F st) cf F)
                       [0, 1, 2]),
               Some (map (axis_value ops False (take BUFFER_SIZE d2) 10 (scaling_factors_T st) ct T)
                       [0, 1, 2]))"
    unfolding decode_sample_iff using len cf ct lenb by (simp add: c1)
  then have "decode_sample ops False (take BUFFER_SIZE d2) st1 =
          Inr (Some (replicate 3 (PyFloat (float_of_int ops 0))),
               Some (replicate 3 (PyFloat (float_of_int ops 0))))"
    by (simp add: zeroF zeroT numeral_3_eq_3)
  then show ?thesis
    using c1(1) by (simp add: get_data_connected)
qed

theorem zero_then_corrected_read_witness:
  "zero_sensor extended_ops CallOk (RecvData example_sample_frame) extended_sensor =
     (Inr (),
      extended_sensor\<lparr>F_bias := [PyFloat (Finite 1), PyFloat (Finite 1), PyFloat (Finite 1)],
                       T_bias := [PyFloat (Finite (1 / 4)), PyFloat (Finite (1 / 4)),
                                  PyFloat (Finite (1 / 4))],
                       sock_calls := [Connect, SetTimeout, SendAll (0 # replicate 19 0),
                                      Recv 1024]\<rparr>) \<and>
   py_slice (1 # 2 # 3 # 4 # drop 4 example_sample_frame @ [9]) 4 16 =
     py_slice example_sample_frame 4 16 \<and>
   fsub extended_ops (truediv extended_ops 1000 1000) (truediv extended_ops 1000 1000) =
     float_of_int extended_ops 0 \<and>
   fsub extended_ops PosInf PosInf = NaN \<and>
   fst (get_data extended_ops False CallOk
          (RecvData (1 # 2 # 3 # 4 # drop 4 example_sample_frame @ [9]))
          (extended_sensor\<lparr>F_bias := [PyFloat (Finite 1), PyFloat (Finite 1), PyFloat (Finite 1)],
                       T_bias := [PyFloat (Finite (1 / 4)), PyFloat (Finite (1 / 4)),
                                  PyFloat (Finite (1 / 4))],
                       sock_calls := [Connect, SetTimeout, SendAll (0 # replicate 19 0),
                                      Recv 1024]\<rparr>)) =
     Inr (Some [PyFloat (Finite 0), PyFloat (Finite 0), PyFloat (Finite 0)],
          Some [PyFloat (Finite 0), PyFloat (Finite 0), PyFloat (Finite 0)])"
proof -
  have z: "zero_sensor extended_ops CallOk (RecvData example_sample_frame) extended_sensor =
     (Inr (),
      extended_sensor\<lparr>F_bias := [PyFloat (Finite 1), PyFloat (Finite 1), PyFloat (Finite 1)],
                       T_bias := [PyFloat (Finite (1 / 4)), PyFloat (Finite (1 / 4)),
                                  PyFloat (Finite (1 / 4))],
                       sock_calls := [Connect, SetTimeout, SendAll (0 # replicate 19 0),
                                      Recv 1024]\<rparr>)"
    by (simp add: eval_defs extended_ops_def extended_sensor_def)
  have s: "py_slice (1 # 2 # 3 # 4 # drop 4 example_sample_frame @ [9]) 4 16 =
     py_slice example_sample_frame 4 16"
    by (simp add: py_slice_def example_sample_frame_def)
  have f: "\<forall>n d. d \<noteq> 0 \<longrightarrow>
      fsub extended_ops (truediv extended_ops n d) (truediv extended_ops n d) =
        float_of_int extended_ops 0"
    by (simp add: extended_ops_def)
  have i: "fsub extended_ops PosInf PosInf = NaN"
    by (simp add: extended_ops_def)
  show ?thesis
    using zero_then_corrected_read [OF z s f] z s f i
    by (simp add: numeral_3_eq_3 extended_ops_def)
qed

end
